theory Spec2Isabelle
  imports Main "HOL-Library.Multiset"
begin

section \<open>Python values used by youtube\_dl\_gui\<close>

text \<open>
  The two modules are Python 2. Exceptions are values of \<open>error\<close>; a computation that
  may raise returns \<open>error + 'a\<close> with \<open>Inl\<close> for the raised exception.
\<close>

datatype error = IndexError | KeyError | OSError

text \<open>Sequencing of computations that may raise: the first exception wins.\<close>

definition bind_err :: "error + 'a \<Rightarrow> ('a \<Rightarrow> error + 'b) \<Rightarrow> error + 'b" where
  "bind_err m f = (case m of Inl e \<Rightarrow> Inl e | Inr v \<Rightarrow> f v)"

text \<open>\<open>xs[i]\<close> for a non-negative literal index: IndexError when out of range.\<close>

definition index :: "'a list \<Rightarrow> nat \<Rightarrow> error + 'a" where
  "index xs i = (if i < length xs then Inr (xs ! i) else Inl IndexError)"

text \<open>\<open>xs[-1]\<close>: the last element, IndexError on the empty list.\<close>

definition index_last :: "'a list \<Rightarrow> error + 'a" where
  "index_last xs = (if xs = [] then Inl IndexError else Inr (last xs))"

text \<open>
  A \<open>dict\<close> with string keys is an association list with distinct keys.
  \<open>d[k] = v\<close> replaces the value of an existing key and adds a missing one.
\<close>

type_synonym 'v dict = "(string \<times> 'v) list"

fun dict_set :: "'v dict \<Rightarrow> string \<Rightarrow> 'v \<Rightarrow> 'v dict" where
  "dict_set [] k v = [(k, v)]"
| "dict_set ((k', v') # d) k v = (if k' = k then (k, v) # d else (k', v') # dict_set d k v)"

definition dict_get :: "'v dict \<Rightarrow> string \<Rightarrow> error + 'v" where
  "dict_get d k = (case map_of d k of None \<Rightarrow> Inl KeyError | Some v \<Rightarrow> Inr v)"

definition keys :: "'v dict \<Rightarrow> string list" where
  "keys d = map fst d"

text \<open>\<open>s.split(' ')\<close>: cut at every single space, keeping empty pieces.\<close>

fun split_sp :: "string \<Rightarrow> string list" where
  "split_sp [] = [[]]"
| "split_sp (c # cs) =
     (if c = CHR '' '' then [] # split_sp cs
      else (case split_sp cs of [] \<Rightarrow> [[c]] | t # ts \<Rightarrow> (c # t) # ts))"

text \<open>\<open>' '.join(xs)\<close>.\<close>

fun join_sp :: "string list \<Rightarrow> string" where
  "join_sp [] = []"
| "join_sp [x] = x"
| "join_sp (x # y # ys) = x @ CHR '' '' # join_sp (y # ys)"

text \<open>
  \<open>s.rstrip()\<close> of a byte string: trailing space, tab, line feed, vertical tab, form feed
  and carriage return are removed.
\<close>

definition is_space :: "char \<Rightarrow> bool" where
  "is_space c = (c \<in> set [CHR '' '', CHR 0x09, CHR 0x0A, CHR 0x0B, CHR 0x0C, CHR 0x0D])"

definition rstrip :: "string \<Rightarrow> string" where
  "rstrip s = rev (dropWhile is_space (rev s))"

section \<open>DownloadObject.py: the line classifier\<close>

text \<open>
  \<open>extract_data(stdout)\<close>. The local \<open>stdout\<close> is rebound to the list of non-empty
  pieces; after \<open>pop(0)\<close> it holds the tokens behind the header. Each block of the
  \<open>[download]\<close> branch is one function here, in the order of the source; an index that
  is out of range raises IndexError and the dictionary built so far is lost.
\<close>

definition tokens :: "string \<Rightarrow> string list" where
  "tokens stdout = filter (\<lambda>string. string \<noteq> []) (split_sp stdout)"

text \<open>\<open># Get filename\<close>\<close>

definition get_filename :: "string list \<Rightarrow> string dict \<Rightarrow> error + string dict" where
  "get_filename stdout d =
     bind_err (index stdout 0) (\<lambda>t0.
       if t0 = ''Destination:'' then Inr (dict_set d ''filename'' (join_sp (drop 1 stdout)))
       else Inr d)"

text \<open>\<open># Get progress info\<close>\<close>

definition get_progress :: "string list \<Rightarrow> string dict \<Rightarrow> error + string dict" where
  "get_progress stdout d =
     bind_err (index stdout 0) (\<lambda>t0.
       if CHR ''%'' \<in> set t0 then
         bind_err (index stdout 0) (\<lambda>t0'.
           if t0' = ''100%'' then Inr (dict_set (dict_set d ''speed'' []) ''eta'' [])
           else
             bind_err (index stdout 0) (\<lambda>v0.
             bind_err (index stdout 2) (\<lambda>v2.
             bind_err (index stdout 4) (\<lambda>v4.
             bind_err (index stdout 6) (\<lambda>v6.
               Inr (dict_set (dict_set (dict_set (dict_set d
                      ''percent'' v0) ''filesize'' v2) ''speed'' v4) ''eta'' v6))))))
       else Inr d)"

text \<open>\<open># Get playlist info\<close>; \<open>and\<close> evaluates \<open>stdout[1]\<close> only after the first test.\<close>

definition get_playlist :: "string list \<Rightarrow> string dict \<Rightarrow> error + string dict" where
  "get_playlist stdout d =
     bind_err (index stdout 0) (\<lambda>t0.
       if t0 = ''Downloading'' then
         bind_err (index stdout 1) (\<lambda>t1.
           if t1 = ''video'' then
             bind_err (index stdout 2) (\<lambda>v2.
             bind_err (index stdout 4) (\<lambda>v4.
               Inr (dict_set (dict_set d ''playlist_index'' v2) ''playlist_size'' v4)))
           else Inr d)
       else Inr d)"

text \<open>\<open># Get file already downloaded status\<close>\<close>

definition get_already :: "string list \<Rightarrow> string dict \<Rightarrow> error + string dict" where
  "get_already stdout d =
     bind_err (index_last stdout) (\<lambda>t.
       if t = ''downloaded'' then Inr (dict_set d ''status'' ''Already Downloaded'')
       else Inr d)"

definition extract_data :: "string \<Rightarrow> error + string dict" where
  "extract_data line =
     (case tokens line of
        [] \<Rightarrow> Inr []
      | header # stdout \<Rightarrow>
          if header = ''[download]'' then
            bind_err (get_filename stdout (dict_set [] ''status'' ''Downloading'')) (\<lambda>d1.
            bind_err (get_progress stdout d1) (\<lambda>d2.
            bind_err (get_playlist stdout d2) (\<lambda>d3.
            get_already stdout d3)))
          else if header = ''[ffmpeg]'' then Inr (dict_set [] ''status'' ''Post Processing'')
          else Inr (dict_set [] ''status'' ''Pre Processing''))"

section \<open>DownloadObject.py: the supervisor\<close>

text \<open>\<open>download()\<close> return codes.\<close>

definition OK :: int where "OK = 0"
definition ERROR :: int where "ERROR = 1"
definition STOPPED :: int where "STOPPED = 2"
definition ALREADY :: int where "ALREADY = 3"

text \<open>
  The instance. \<open>data\<close> is \<open>self._data\<close>: a key that is present maps to \<open>Some v\<close>, where
  \<open>v = None\<close> is Python's \<open>None\<close>. \<open>proc\<close> is \<open>None\<close> until a process has been created and
  afterwards the command line it was created with. The two callbacks are optional;
  \<open>data_hook\<close> and \<open>logger\<close> say whether they were given, and the calls made to them are
  collected in \<open>hooked\<close> and \<open>logged\<close>.
\<close>

record DownloadObject =
  youtubedl_path :: string
  data_hook :: bool
  logger :: bool
  return_code :: int
  files_list :: "string list"
  proc :: "string list option"
  data :: "string \<rightharpoonup> string option"
  hooked :: "(string \<rightharpoonup> string option) list"
  logged :: "string list"

definition DownloadObject_init :: "string \<Rightarrow> bool \<Rightarrow> bool \<Rightarrow> DownloadObject" where
  "DownloadObject_init path hook lg =
     \<lparr> youtubedl_path = path, data_hook = hook, logger = lg,
       return_code = 0, files_list = [], proc = None,
       data = [''playlist_index'' \<mapsto> None, ''playlist_size'' \<mapsto> None,
               ''filesize'' \<mapsto> None, ''filename'' \<mapsto> None, ''percent'' \<mapsto> None,
               ''status'' \<mapsto> None, ''speed'' \<mapsto> None, ''eta'' \<mapsto> None],
       hooked = [], logged = [] \<rparr>"

text \<open>
  \<open>os.path.basename\<close> is the function of the path module of the platform. The functions
  that reach it take it as the argument \<open>basename\<close>. \<open>posix_basename\<close> is the one of
  \<open>posixpath\<close>: what follows the last slash.
\<close>

definition posix_basename :: "string \<Rightarrow> string" where
  "posix_basename p = rev (takeWhile (\<lambda>c. c \<noteq> CHR ''/'') (rev p))"

definition add_on_files_list :: "DownloadObject \<Rightarrow> string \<Rightarrow> DownloadObject" where
  "add_on_files_list s filename = s\<lparr>files_list := files_list s @ [filename]\<rparr>"

text \<open>
  The body of the loop of \<open>_update_data\<close> for one key and its value in the event. The
  two assignments to \<open>data[key]\<close> change only the value that is stored afterwards.
\<close>

definition update_key ::
  "(string \<Rightarrow> string) \<Rightarrow> string \<times> string \<Rightarrow> DownloadObject \<Rightarrow> DownloadObject" where
  "update_key basename kv s =
     (case kv of (key, val) \<Rightarrow>
        let (s1, v1) = (if key = ''filename''
                        then (add_on_files_list s val, basename val) else (s, val));
            (s2, v2) = (if key = ''status'' \<and> v1 = ''Already Downloaded''
                        then (s1\<lparr>return_code := ALREADY\<rparr>, None) else (s1, Some v1))
        in s2\<lparr>data := (data s2)(key \<mapsto> v2)\<rparr>)"

text \<open>\<open>_update_data(data)\<close>: the new instance and the flag \<open>updated\<close>.\<close>

definition update_data ::
  "(string \<Rightarrow> string) \<Rightarrow> DownloadObject \<Rightarrow> string dict \<Rightarrow> DownloadObject \<times> bool" where
  "update_data basename s d =
     fold (\<lambda>kv (s', updated). (update_key basename kv s', True)) d (s, False)"

definition log :: "DownloadObject \<Rightarrow> string \<Rightarrow> DownloadObject" where
  "log s text = (if logger s then s\<lparr>logged := logged s @ [text]\<rparr> else s)"

definition hook_data :: "DownloadObject \<Rightarrow> DownloadObject" where
  "hook_data s = (if data_hook s then s\<lparr>hooked := hooked s @ [data s]\<rparr> else s)"

text \<open>\<open>_proc_is_alive()\<close>; \<open>polled\<close> says that \<open>poll()\<close> returned \<open>None\<close>.\<close>

definition proc_is_alive :: "DownloadObject \<Rightarrow> bool \<Rightarrow> bool" where
  "proc_is_alive s polled = (case proc s of None \<Rightarrow> False | Some cmd \<Rightarrow> polled)"

text \<open>
  \<open>_read()\<close> on the next lines of the two streams, each as \<open>readline()\<close> returns it:
  the line of stderr is taken only when the stripped line of stdout is empty.
\<close>

definition read :: "string \<Rightarrow> string \<Rightarrow> string \<times> string" where
  "read out_line err_line =
     (let stdout = rstrip out_line
      in if stdout = [] then (stdout, rstrip err_line) else (stdout, []))"

definition get_cmd :: "string \<Rightarrow> DownloadObject \<Rightarrow> string \<Rightarrow> string list \<Rightarrow> string list" where
  "get_cmd os_name s url options =
     (if os_name = ''nt'' then [youtubedl_path s] @ options @ [url]
      else [''python'', youtubedl_path s] @ options @ [url])"

definition create_process :: "DownloadObject \<Rightarrow> string list \<Rightarrow> DownloadObject" where
  "create_process s cmd = s\<lparr>proc := Some cmd\<rparr>"

text \<open>
  \<open>stop()\<close> in its steps. The test comes first; when it passes, \<open>kill()\<close> follows, which
  acts on the process and leaves the instance as it is, and after it, as a step of its
  own, the assignment of STOPPED to the return code. Nothing holds the loop of \<open>download\<close>
  back between the two steps.
\<close>

definition stop_test :: "DownloadObject \<Rightarrow> bool \<Rightarrow> bool" where
  "stop_test s polled = proc_is_alive s polled"

definition stop_assign :: "DownloadObject \<Rightarrow> DownloadObject" where
  "stop_assign s = s\<lparr>return_code := STOPPED\<rparr>"

text \<open>
  One pass through the body of the \<open>while\<close> loop of \<open>download\<close>. An exception of
  \<open>extract_data\<close> leaves the loop and \<open>download\<close>.
\<close>

definition iteration ::
  "(string \<Rightarrow> string) \<Rightarrow> DownloadObject \<Rightarrow> string \<Rightarrow> string \<Rightarrow>
     DownloadObject \<times> (error + unit)" where
  "iteration basename s out_line err_line =
     (case read out_line err_line of (stdout, stderr) \<Rightarrow>
        (case extract_data stdout of
           Inl e \<Rightarrow> (s, Inl e)
         | Inr d \<Rightarrow>
             (case update_data basename s d of (s1, updated) \<Rightarrow>
                let s2 = (if updated then hook_data s1 else s1);
                    s3 = (if stderr \<noteq> [] then log (s2\<lparr>return_code := ERROR\<rparr>) stderr else s2)
                in (s3, Inr ()))))"

text \<open>
  What happens while the process lives is a list of actions in the order in which they
  take effect: \<open>Read out err\<close> is one pass of the loop, entered after \<open>poll()\<close> returned
  \<open>None\<close>, with the lines the two streams deliver; \<open>Kill\<close> and \<open>Assign\<close> are the two steps
  of a call of \<open>stop()\<close> by the caller's other thread, the test with \<open>kill()\<close> and the
  assignment of STOPPED. The process is killed at \<open>Kill\<close>; a pass that was entered before
  comes behind it in the list, with what its \<open>readline()\<close> calls return then. When the list
  is used up the process has exited and the loop ends: an \<open>Assign\<close> that is not in the
  list takes effect after \<open>download\<close> has returned. The test of the call depends on the
  instance through \<open>self._proc\<close> only, which the loop does not change.
\<close>

datatype action = Read string string | Kill | Assign

fun download_loop ::
  "(string \<Rightarrow> string) \<Rightarrow> DownloadObject \<Rightarrow> action list \<Rightarrow> DownloadObject \<times> (error + int)" where
  "download_loop basename s [] = (s, Inr (return_code s))"
| "download_loop basename s (Kill # run) = download_loop basename s run"
| "download_loop basename s (Assign # run) =
     download_loop basename (if stop_test s True then stop_assign s else s) run"
| "download_loop basename s (Read out_line err_line # run) =
     (if proc_is_alive s True then
        (case iteration basename s out_line err_line of
           (s', Inl e) \<Rightarrow> (s', Inl e)
         | (s', Inr u) \<Rightarrow> download_loop basename s' run)
      else (s, Inr (return_code s)))"

text \<open>The statements of \<open>download\<close> before the loop.\<close>

definition download_start :: "string \<Rightarrow> DownloadObject \<Rightarrow> string \<Rightarrow> string list \<Rightarrow> DownloadObject" where
  "download_start os_name s url options =
     (let s1 = s\<lparr>return_code := OK\<rparr>;
          cmd = get_cmd os_name s1 url options
      in create_process s1 cmd)"

definition download ::
  "string \<Rightarrow> (string \<Rightarrow> string) \<Rightarrow> DownloadObject \<Rightarrow> string \<Rightarrow> string list \<Rightarrow> action list \<Rightarrow>
     DownloadObject \<times> (error + int)" where
  "download os_name basename s url options run =
     download_loop basename (download_start os_name s url options) run"

text \<open>
  A pass of the loop is \<open>quiet\<close> when the line of stdout is classified without an
  exception and no text is read from stderr. A step of \<open>stop()\<close> is not quiet.
\<close>

definition quiet_read :: "string \<Rightarrow> string \<Rightarrow> bool" where
  "quiet_read out_line err_line =
     (case read out_line err_line of (stdout, stderr) \<Rightarrow>
        stderr = [] \<and> (case extract_data stdout of Inl e \<Rightarrow> False | Inr d \<Rightarrow> True))"

fun quiet :: "action \<Rightarrow> bool" where
  "quiet Kill = False"
| "quiet Assign = False"
| "quiet (Read out_line err_line) = quiet_read out_line err_line"

text \<open>
  The file system as \<open>clear_dash\<close> sees it: a path that exists is either a file that can be
  removed or an entry whose removal fails (a directory, a file without permission).
\<close>

datatype entry = Removable | Protected

type_synonym filesystem = "string \<rightharpoonup> entry"

definition os_path_exists :: "filesystem \<Rightarrow> string \<Rightarrow> bool" where
  "os_path_exists fs p = (fs p \<noteq> None)"

definition os_remove :: "filesystem \<Rightarrow> string \<Rightarrow> filesystem \<times> (error + unit)" where
  "os_remove fs p =
     (case fs p of
        Some Removable \<Rightarrow> (fs(p := None), Inr ())
      | Some Protected \<Rightarrow> (fs, Inl OSError)
      | None \<Rightarrow> (fs, Inl OSError))"

text \<open>\<open>clear_dash()\<close> over \<open>self._files_list\<close>; an exception of \<open>os.remove\<close> ends the loop.\<close>

fun clear_dash :: "string list \<Rightarrow> filesystem \<Rightarrow> filesystem \<times> (error + unit)" where
  "clear_dash [] fs = (fs, Inr ())"
| "clear_dash (dash_file # rest) fs =
     (if os_path_exists fs dash_file then
        (case os_remove fs dash_file of
           (fs', Inl e) \<Rightarrow> (fs', Inl e)
         | (fs', Inr u) \<Rightarrow> clear_dash rest fs')
      else clear_dash rest fs)"

section \<open>OptionsParser.py: the argument builder\<close>

text \<open>
  \<open>OptionsManager.options\<close>, the mapping the parser reads, with the types of the values
  its owner stores there.
\<close>

record options_dict =
  save_path :: string
  output_format :: string
  output_template :: string
  restrict_filenames :: bool
  username :: string
  password :: string
  video_password :: string
  retries :: int
  proxy :: string
  user_agent :: string
  referer :: string
  video_format :: string
  dash_audio_format :: string
  playlist_start :: int
  playlist_end :: int
  max_downloads :: int
  ignore_errors :: bool
  write_description :: bool
  write_info :: bool
  write_thumbnail :: bool
  min_filesize :: string
  max_filesize :: string
  write_all_subs :: bool
  write_auto_subs :: bool
  write_subs :: bool
  subs_lang :: string
  embed_subs :: bool
  to_audio :: bool
  audio_format :: string
  audio_quality :: string
  keep_video :: bool
  cmd_args :: string

definition SUBS_LANG :: "string dict" where
  "SUBS_LANG = [(''English'', ''en''), (''Greek'', ''gr''), (''Portuguese'', ''pt''),
                (''French'', ''fr''), (''Italian'', ''it''), (''Russian'', ''ru''),
                (''Spanish'', ''es''), (''German'', ''de'')]"

definition VIDEO_FORMATS :: "string dict" where
  "VIDEO_FORMATS = [(''default'', ''0''), (''mp4 [1280x720]'', ''22''), (''mp4 [640x360]'', ''18''),
                    (''webm [640x360]'', ''43''), (''flv [400x240]'', ''5''),
                    (''3gp [320x240]'', ''36''), (''mp4 1080p(DASH)'', ''137''),
                    (''mp4 720p(DASH)'', ''136''), (''mp4 480p(DASH)'', ''135''),
                    (''mp4 360p(DASH)'', ''134'')]"

definition DASH_AUDIO_FORMATS :: "string dict" where
  "DASH_AUDIO_FORMATS = [(''none'', ''none''), (''DASH m4a audio 128k'', ''140''),
                         (''DASH webm audio 48k'', ''171'')]"

definition AUDIO_QUALITY :: "string dict" where
  "AUDIO_QUALITY = [(''high'', ''0''), (''mid'', ''5''), (''low'', ''9'')]"

text \<open>\<open>str(n)\<close> of an integer: its decimal digits, with a minus sign when negative.\<close>

fun str_nat :: "nat \<Rightarrow> string" where
  "str_nat n =
     (if n < 10 then [''0123456789'' ! n]
      else str_nat (n div 10) @ [''0123456789'' ! (n mod 10)])"

declare str_nat.simps [simp del]

definition str :: "int \<Rightarrow> string" where
  "str i = (if i < 0 then CHR ''-'' # str_nat (nat (- i)) else str_nat (nat i))"

text \<open>\<open>s.split()\<close>: the pieces between runs of whitespace, none of them empty.\<close>

fun pieces_ws :: "string \<Rightarrow> string list" where
  "pieces_ws [] = [[]]"
| "pieces_ws (c # cs) =
     (if is_space c then [] # pieces_ws cs
      else (case pieces_ws cs of [] \<Rightarrow> [[c]] | t # ts \<Rightarrow> (c # t) # ts))"

definition split_ws :: "string \<Rightarrow> string list" where
  "split_ws s = filter (\<lambda>t. t \<noteq> []) (pieces_ws s)"

text \<open>
  The parser object. \<open>fix_path\<close> and \<open>is_dash\<close> are imported from the module \<open>utils\<close>,
  which is outside these sources; the methods that call them take them as arguments.
\<close>

record OptionsParser =
  options :: options_dict
  options_list :: "string list"

definition OptionsParser_init :: "options_dict \<Rightarrow> OptionsParser" where
  "OptionsParser_init opt_manager_options = \<lparr> options = opt_manager_options, options_list = [] \<rparr>"

text \<open>\<open>self.options_list.append(x)\<close>\<close>

definition append_item :: "OptionsParser \<Rightarrow> string \<Rightarrow> OptionsParser" where
  "append_item p x = p\<lparr>options_list := options_list p @ [x]\<rparr>"

definition set_progress_options :: "OptionsParser \<Rightarrow> OptionsParser" where
  "set_progress_options p = append_item p ''--newline''"

definition set_playlist_options :: "OptionsParser \<Rightarrow> OptionsParser" where
  "set_playlist_options p =
     (let p1 = (if playlist_start (options p) \<noteq> 1
                then append_item (append_item p ''--playlist-start'')
                       (str (playlist_start (options p)))
                else p);
          p2 = (if playlist_end (options p1) \<noteq> 0
                then append_item (append_item p1 ''--playlist-end'')
                       (str (playlist_end (options p1)))
                else p1)
      in if max_downloads (options p2) \<noteq> 0
         then append_item (append_item p2 ''--max-downloads'') (str (max_downloads (options p2)))
         else p2)"

definition set_auth_options :: "OptionsParser \<Rightarrow> OptionsParser" where
  "set_auth_options p =
     (let p1 = (if username (options p) \<noteq> []
                then append_item (append_item p ''-u'') (username (options p)) else p);
          p2 = (if password (options p1) \<noteq> []
                then append_item (append_item p1 ''-p'') (password (options p1)) else p1)
      in if video_password (options p2) \<noteq> []
         then append_item (append_item p2 ''--video-password'') (video_password (options p2))
         else p2)"

definition set_connection_options :: "OptionsParser \<Rightarrow> OptionsParser" where
  "set_connection_options p =
     (let p1 = (if retries (options p) \<noteq> 10
                then append_item (append_item p ''-R'') (str (retries (options p))) else p);
          p2 = (if proxy (options p1) \<noteq> []
                then append_item (append_item p1 ''--proxy'') (proxy (options p1)) else p1);
          p3 = (if user_agent (options p2) \<noteq> []
                then append_item (append_item p2 ''--user-agent'') (user_agent (options p2))
                else p2)
      in if referer (options p3) \<noteq> []
         then append_item (append_item p3 ''--referer'') (referer (options p3))
         else p3)"

text \<open>
  A failed lookup in one of the tables raises KeyError after \<open>-f\<close> has been appended;
  the exception leaves \<open>parse\<close>, so that list is not returned.
\<close>

definition set_video_options :: "(string \<Rightarrow> bool) \<Rightarrow> OptionsParser \<Rightarrow> error + OptionsParser" where
  "set_video_options is_dash p =
     (if video_format (options p) \<noteq> ''default'' then
        (let p1 = append_item p ''-f'' in
         bind_err (dict_get VIDEO_FORMATS (video_format (options p1))) (\<lambda>video_format0.
         bind_err
           (if is_dash (video_format (options p1)) then
              (if is_dash (dash_audio_format (options p1)) then
                 bind_err (dict_get DASH_AUDIO_FORMATS (dash_audio_format (options p1)))
                   (\<lambda>dash_format. Inr (video_format0 @ ''+'' @ dash_format))
               else Inr video_format0)
            else Inr video_format0)
           (\<lambda>video_format1. Inr (append_item p1 video_format1))))
      else Inr p)"

definition set_filesystem_options :: "OptionsParser \<Rightarrow> OptionsParser" where
  "set_filesystem_options p =
     (let p1 = (if ignore_errors (options p) then append_item p ''-i'' else p);
          p2 = (if write_description (options p1) then append_item p1 ''--write-description''
                else p1);
          p3 = (if write_info (options p2) then append_item p2 ''--write-info-json'' else p2);
          p4 = (if write_thumbnail (options p3) then append_item p3 ''--write-thumbnail''
                else p3);
          p5 = (if min_filesize (options p4) \<noteq> ''0''
                then append_item (append_item p4 ''--min-filesize'') (min_filesize (options p4))
                else p4)
      in if max_filesize (options p5) \<noteq> ''0''
         then append_item (append_item p5 ''--max-filesize'') (max_filesize (options p5))
         else p5)"

definition set_subtitles_options :: "OptionsParser \<Rightarrow> error + OptionsParser" where
  "set_subtitles_options p =
     (let p1 = (if write_all_subs (options p) then append_item p ''--all-subs'' else p);
          p2 = (if write_auto_subs (options p1) then append_item p1 ''--write-auto-sub'' else p1)
      in bind_err
           (if write_subs (options p2) then
              (let p3 = append_item (append_item p2 ''--write-sub'') ''--sub-lang''
               in bind_err (dict_get SUBS_LANG (subs_lang (options p3)))
                    (\<lambda>lang. Inr (append_item p3 lang)))
            else Inr p2)
           (\<lambda>p4. Inr (if embed_subs (options p4) then append_item p4 ''--embed-subs'' else p4)))"

definition set_output_options :: "(string \<Rightarrow> string) \<Rightarrow> OptionsParser \<Rightarrow> OptionsParser" where
  "set_output_options fix_path p =
     (let save_path0 = fix_path (save_path (options p));
          p1 = append_item p ''-o'';
          p2 = (if output_format (options p1) = ''id''
                then append_item p1 (save_path0 @ ''%(id)s.%(ext)s'')
                else if output_format (options p1) = ''title''
                then append_item p1 (save_path0 @ ''%(title)s.%(ext)s'')
                else if output_format (options p1) = ''custom''
                then append_item p1 (save_path0 @ output_template (options p1))
                else p1)
      in if restrict_filenames (options p2) then append_item p2 ''--restrict-filenames'' else p2)"

definition set_audio_options :: "OptionsParser \<Rightarrow> error + OptionsParser" where
  "set_audio_options p =
     (if to_audio (options p) then
        (let p1 = append_item (append_item (append_item p ''-x'') ''--audio-format'')
                    (audio_format (options p))
         in bind_err
              (if audio_quality (options p1) \<noteq> ''mid'' then
                 bind_err (dict_get AUDIO_QUALITY (audio_quality (options p1)))
                   (\<lambda>quality. Inr (append_item (append_item p1 ''--audio-quality'') quality))
               else Inr p1)
              (\<lambda>p2. Inr (if keep_video (options p2) then append_item p2 ''-k'' else p2)))
      else Inr p)"

definition set_other_options :: "OptionsParser \<Rightarrow> OptionsParser" where
  "set_other_options p =
     (if cmd_args (options p) \<noteq> []
      then fold (\<lambda>option p'. append_item p' option) (split_ws (cmd_args (options p))) p
      else p)"

text \<open>\<open>parse()\<close> returns \<open>self.options_list\<close> after the ten methods have run.\<close>

definition parse ::
  "(string \<Rightarrow> string) \<Rightarrow> (string \<Rightarrow> bool) \<Rightarrow> OptionsParser \<Rightarrow> error + string list" where
  "parse fix_path is_dash p =
     (let p1 = set_progress_options p;
          p2 = set_output_options fix_path p1;
          p3 = set_auth_options p2;
          p4 = set_connection_options p3
      in bind_err (set_video_options is_dash p4) (\<lambda>p5.
           let p6 = set_playlist_options p5;
               p7 = set_filesystem_options p6
           in bind_err (set_subtitles_options p7) (\<lambda>p8.
              bind_err (set_audio_options p8) (\<lambda>p9.
                Inr (options_list (set_other_options p9))))))"

section \<open>The argument list as the specification describes it\<close>

text \<open>
  Section 4.1 of the specification gives the argument list as ten groups in a fixed order,
  each flag of a group emitted under its guard. \<open>emit_if\<close> is the guarded emission, the
  group functions follow rules 1 to 10, and \<open>build\<close> puts the groups in that order. A name
  that is missing from its table is the configuration error of the rule and makes the
  whole build fail.
\<close>

definition emit_if :: "bool \<Rightarrow> string list \<Rightarrow> string list" where
  "emit_if guard args = (if guard then args else [])"

text \<open>Rule 1: the flag for plain progress lines, always.\<close>

definition progress_group :: "string list" where
  "progress_group = [''--newline'']"

text \<open>
  Rule 2: \<open>-o\<close> and the destination template of the naming mode, then the
  restrict-filenames flag. The rule names three modes; for any other mode the source
  appends \<open>-o\<close> alone.
\<close>

definition output_group :: "(string \<Rightarrow> string) \<Rightarrow> options_dict \<Rightarrow> string list" where
  "output_group fix_path cfg =
     [''-o''] @
     emit_if (output_format cfg = ''id'') [fix_path (save_path cfg) @ ''%(id)s.%(ext)s''] @
     emit_if (output_format cfg = ''title'') [fix_path (save_path cfg) @ ''%(title)s.%(ext)s''] @
     emit_if (output_format cfg = ''custom'') [fix_path (save_path cfg) @ output_template cfg] @
     emit_if (restrict_filenames cfg) [''--restrict-filenames'']"

text \<open>Rule 3: each of the three credentials only if it is not empty.\<close>

definition auth_group :: "options_dict \<Rightarrow> string list" where
  "auth_group cfg =
     emit_if (username cfg \<noteq> []) [''-u'', username cfg] @
     emit_if (password cfg \<noteq> []) [''-p'', password cfg] @
     emit_if (video_password cfg \<noteq> []) [''--video-password'', video_password cfg]"

text \<open>Rule 4: the retry count only if it is not 10; proxy, user agent, referer if not empty.\<close>

definition connection_group :: "options_dict \<Rightarrow> string list" where
  "connection_group cfg =
     emit_if (retries cfg \<noteq> 10) [''-R'', str (retries cfg)] @
     emit_if (proxy cfg \<noteq> []) [''--proxy'', proxy cfg] @
     emit_if (user_agent cfg \<noteq> []) [''--user-agent'', user_agent cfg] @
     emit_if (referer cfg \<noteq> []) [''--referer'', referer cfg]"

text \<open>
  Rule 5: the format flag only if the format is not \<open>default\<close>; its value is the code of
  the format, joined by \<open>+\<close> with the code of the audio track when both are of DASH class.
\<close>

definition video_group :: "(string \<Rightarrow> bool) \<Rightarrow> options_dict \<Rightarrow> error + string list" where
  "video_group is_dash cfg =
     (if video_format cfg = ''default'' then Inr []
      else bind_err (dict_get VIDEO_FORMATS (video_format cfg)) (\<lambda>video_code.
             if is_dash (video_format cfg) \<and> is_dash (dash_audio_format cfg)
             then bind_err (dict_get DASH_AUDIO_FORMATS (dash_audio_format cfg)) (\<lambda>audio_code.
                    Inr [''-f'', video_code @ ''+'' @ audio_code])
             else Inr [''-f'', video_code]))"

text \<open>Rule 6: start, end and maximum only if they differ from 1, 0 and 0.\<close>

definition playlist_group :: "options_dict \<Rightarrow> string list" where
  "playlist_group cfg =
     emit_if (playlist_start cfg \<noteq> 1) [''--playlist-start'', str (playlist_start cfg)] @
     emit_if (playlist_end cfg \<noteq> 0) [''--playlist-end'', str (playlist_end cfg)] @
     emit_if (max_downloads cfg \<noteq> 0) [''--max-downloads'', str (max_downloads cfg)]"

text \<open>Rule 7: four flags under their switches; the two file sizes only if they are not \<open>0\<close>.\<close>

definition filesystem_group :: "options_dict \<Rightarrow> string list" where
  "filesystem_group cfg =
     emit_if (ignore_errors cfg) [''-i''] @
     emit_if (write_description cfg) [''--write-description''] @
     emit_if (write_info cfg) [''--write-info-json''] @
     emit_if (write_thumbnail cfg) [''--write-thumbnail''] @
     emit_if (min_filesize cfg \<noteq> ''0'') [''--min-filesize'', min_filesize cfg] @
     emit_if (max_filesize cfg \<noteq> ''0'') [''--max-filesize'', max_filesize cfg]"

text \<open>
  Rule 8: all-subs, auto-subs and embed-subs under their switches; with the explicit
  subtitle download also the language flag and the code of the language.
\<close>

definition subtitles_group :: "options_dict \<Rightarrow> error + string list" where
  "subtitles_group cfg =
     bind_err
       (if write_subs cfg
        then bind_err (dict_get SUBS_LANG (subs_lang cfg)) (\<lambda>lang.
               Inr [''--write-sub'', ''--sub-lang'', lang])
        else Inr [])
       (\<lambda>explicit.
          Inr (emit_if (write_all_subs cfg) [''--all-subs''] @
               emit_if (write_auto_subs cfg) [''--write-auto-sub''] @
               explicit @
               emit_if (embed_subs cfg) [''--embed-subs'']))"

text \<open>
  Rule 9: with audio extraction switched on, the extract flag, the audio format, the
  quality flag only if the quality is not \<open>mid\<close>, and the keep-video flag under its switch;
  nothing at all with audio extraction switched off.
\<close>

definition audio_group :: "options_dict \<Rightarrow> error + string list" where
  "audio_group cfg =
     (if to_audio cfg then
        bind_err
          (if audio_quality cfg \<noteq> ''mid''
           then bind_err (dict_get AUDIO_QUALITY (audio_quality cfg)) (\<lambda>quality.
                  Inr [''--audio-quality'', quality])
           else Inr [])
          (\<lambda>quality_args.
             Inr ([''-x'', ''--audio-format'', audio_format cfg] @ quality_args @
                  emit_if (keep_video cfg) [''-k'']))
      else Inr [])"

text \<open>Rule 10: the tokens of the extra arguments, in their order.\<close>

definition extra_group :: "options_dict \<Rightarrow> string list" where
  "extra_group cfg = split_ws (cmd_args cfg)"

definition build ::
  "(string \<Rightarrow> string) \<Rightarrow> (string \<Rightarrow> bool) \<Rightarrow> options_dict \<Rightarrow> error + string list" where
  "build fix_path is_dash cfg =
     bind_err (video_group is_dash cfg) (\<lambda>video_args.
     bind_err (subtitles_group cfg) (\<lambda>subtitles_args.
     bind_err (audio_group cfg) (\<lambda>audio_args.
       Inr (progress_group @ output_group fix_path cfg @ auth_group cfg @
            connection_group cfg @ video_args @ playlist_group cfg @
            filesystem_group cfg @ subtitles_args @ audio_args @ extra_group cfg))))"

section \<open>Facts about the line classifier\<close>

lemmas classifier_defs = extract_data_def get_filename_def get_progress_def get_playlist_def
  get_already_def bind_err_def index_def index_last_def

lemma split_sp_only_spaces: "set line \<subseteq> {CHR '' ''} \<Longrightarrow> set (split_sp line) \<subseteq> {[]}"
  by (induction line) auto

lemma tokens_only_spaces: "set line \<subseteq> {CHR '' ''} \<Longrightarrow> tokens line = []"
  unfolding tokens_def using split_sp_only_spaces [of line] by (auto simp: filter_empty_conv)

text \<open>
  C1. The claim is that \<open>extract_data\<close> never raises and skips a sub-extraction whose
  tokens are missing. The source indexes \<open>stdout\<close> without a length test: on the line that
  is only the \<open>[download]\<close> header \<open>stdout[0]\<close> raises IndexError, and so does \<open>stdout[4]\<close>
  on a progress line that stops before the speed token.
\<close>

theorem extract_data_truncated_raises:
  "extract_data ''[download]'' = Inl IndexError \<and>
   extract_data ''[download]  42.0% of 10.00MiB'' = Inl IndexError"
  by (simp add: classifier_defs tokens_def)

text \<open>
  C7. The claim is that on every \<open>[download]\<close> line whose first token behind the header
  contains a percent sign and is not \<open>100%\<close> the four fields are read from the positions
  0, 2, 4 and 6. Such a line can have fewer than seven tokens behind the header: the line
  below, for a file whose name starts with \<open>50%\<close>, has five, \<open>stdout[6]\<close> raises
  IndexError and no field is read.
\<close>

theorem extract_data_short_progress_line:
  "tokens ''[download] 50%.mp4 has already been downloaded'' =
     ''[download]'' # [''50%.mp4'', ''has'', ''already'', ''been'', ''downloaded''] \<and>
   CHR ''%'' \<in> set ''50%.mp4'' \<and> ''50%.mp4'' \<noteq> ''100%'' \<and>
   extract_data ''[download] 50%.mp4 has already been downloaded'' = Inl IndexError"
  by (simp add: classifier_defs tokens_def)

text \<open>
  C7, amended. On a line with the \<open>[download]\<close> header whose first token \<open>ts ! 0\<close> behind
  the header contains a percent sign: if that token is \<open>100%\<close> the event holds the status
  and the empty strings for speed and eta, and no percent; otherwise, when at least seven
  tokens stand behind the header, percent, filesize, speed and eta are the tokens at the
  positions 0, 2, 4 and 6. The status is Downloading unless the last token is
  \<open>downloaded\<close>.
\<close>

theorem extract_data_progress:
  assumes "tokens line = ''[download]'' # ts" and "ts \<noteq> []" and "CHR ''%'' \<in> set (ts ! 0)"
  shows "(ts ! 0 = ''100%'' \<longrightarrow>
            extract_data line =
              Inr [(''status'', if last ts = ''downloaded'' then ''Already Downloaded''
                                else ''Downloading''),
                   (''speed'', []), (''eta'', [])]) \<and>
         (ts ! 0 \<noteq> ''100%'' \<and> 7 \<le> length ts \<longrightarrow>
            extract_data line =
              Inr [(''status'', if last ts = ''downloaded'' then ''Already Downloaded''
                                else ''Downloading''),
                   (''percent'', ts ! 0), (''filesize'', ts ! 2),
                   (''speed'', ts ! 4), (''eta'', ts ! 6)])"
proof (cases ts)
  case Nil
  with assms(2) show ?thesis by simp
next
  case (Cons t0 rest)
  with assms(1,3) show ?thesis by (auto simp: classifier_defs)
qed

theorem extract_data_progress_witness:
  "extract_data ''[download]  42.0% of 10.00MiB at 1.20MiB/s ETA 00:10'' =
     Inr [(''status'', ''Downloading''), (''percent'', ''42.0%''), (''filesize'', ''10.00MiB''),
          (''speed'', ''1.20MiB/s''), (''eta'', ''00:10'')] \<and>
   extract_data ''[download] 100% of 10.00MiB'' =
     Inr [(''status'', ''Downloading''), (''speed'', []), (''eta'', [])]"
  using extract_data_progress [of "''[download]  42.0% of 10.00MiB at 1.20MiB/s ETA 00:10''"
          "[''42.0%'', ''of'', ''10.00MiB'', ''at'', ''1.20MiB/s'', ''ETA'', ''00:10'']"]
        extract_data_progress [of "''[download] 100% of 10.00MiB''"
          "[''100%'', ''of'', ''10.00MiB'']"]
  by (simp add: tokens_def)

text \<open>
  C8. The claim covers every line of whitespace only. The source cuts the line at the
  space character alone, so a tab is a token: the line that is one tab is classified as
  Pre Processing.
\<close>

theorem extract_data_tab_line:
  "is_space (CHR 0x09) \<and> extract_data [CHR 0x09] = Inr [(''status'', ''Pre Processing'')]"
  by (simp add: classifier_defs tokens_def is_space_def)

text \<open>
  C8, amended. The empty line and every line of space characters only give the empty
  event, and merging the empty event changes nothing and returns False.
\<close>

theorem extract_data_blank_line:
  "set line \<subseteq> {CHR '' ''} \<Longrightarrow>
     extract_data line = Inr [] \<and> update_data basename s [] = (s, False)"
  by (simp add: tokens_only_spaces extract_data_def update_data_def)

theorem extract_data_blank_line_witness:
  "set ''   '' \<subseteq> {CHR '' ''} \<and> extract_data ''   '' = Inr [] \<and> extract_data [] = Inr [] \<and>
   update_data posix_basename (DownloadObject_init ''youtube-dl'' True True) [] = (DownloadObject_init ''youtube-dl'' True True, False)"
  using extract_data_blank_line [where line = "''   ''" and basename = posix_basename
          and s = "DownloadObject_init ''youtube-dl'' True True"]
        extract_data_blank_line [where line = "[]"]
  by simp

section \<open>Facts about merging an event\<close>


lemma update_data_fold_gen:
  "fold (\<lambda>kv (s', updated). (update_key basename kv s', True)) d (s, b) =
     (fold (update_key basename) d s, b \<or> d \<noteq> [])"
  by (induction d arbitrary: s b) auto

lemma update_data_fold: "update_data basename s d = (fold (update_key basename) d s, d \<noteq> [])"
  by (simp add: update_data_def update_data_fold_gen)

lemma update_key_data_other: "key \<noteq> fst kv \<Longrightarrow> data (update_key basename kv s) key = data s key"
  by (cases kv) (auto simp: update_key_def add_on_files_list_def Let_def split: prod.splits)

lemma fold_update_key_data_other:
  "key \<notin> set (keys d) \<Longrightarrow> data (fold (update_key basename) d s) key = data s key"
  by (induction d arbitrary: s) (auto simp: keys_def update_key_data_other)

text \<open>
  C6. Merge is monotonic per field: a key that the event does not mention keeps the value
  it had, whatever it was; hence a field that was set can change only in the merge of an
  event that supplies the same key.
\<close>

theorem update_data_keeps_unmentioned:
  "key \<notin> set (keys event) \<Longrightarrow> data (fst (update_data basename s event)) key = data s key"
  by (simp add: update_data_fold fold_update_key_data_other)

theorem update_data_keeps_unmentioned_witness:
  "''filename'' \<notin> set (keys [(''status'', ''Downloading''), (''speed'', []), (''eta'', [])]) \<and>
   data (fst (update_data posix_basename
          (fst (update_data posix_basename (DownloadObject_init ''youtube-dl'' True True)
                  [(''status'', ''Downloading''), (''filename'', ''/tmp/movie.mp4'')]))
          [(''status'', ''Downloading''), (''speed'', []), (''eta'', [])])) ''filename'' =
     Some (Some ''movie.mp4'')"
  using update_data_keeps_unmentioned [of "''filename''"
          "[(''status'', ''Downloading''), (''speed'', []), (''eta'', [])]" posix_basename
          "fst (update_data posix_basename (DownloadObject_init ''youtube-dl'' True True)
                  [(''status'', ''Downloading''), (''filename'', ''/tmp/movie.mp4'')])"]
  by (simp add: keys_def update_data_def update_key_def add_on_files_list_def DownloadObject_init_def
        posix_basename_def)

lemma update_key_return_code_other:
  "fst kv \<noteq> ''status'' \<Longrightarrow> return_code (update_key basename kv s) = return_code s"
  by (cases kv) (simp add: update_key_def add_on_files_list_def Let_def split: prod.splits)

lemma fold_update_key_return_code_other:
  "''status'' \<notin> set (keys d) \<Longrightarrow> return_code (fold (update_key basename) d s) = return_code s"
  by (induction d arbitrary: s) (auto simp: keys_def update_key_return_code_other)

lemma update_key_already:
  "return_code (update_key basename (''status'', ''Already Downloaded'') s) = ALREADY \<and>
   data (update_key basename (''status'', ''Already Downloaded'') s) ''status'' = Some None"
  by (simp add: update_key_def)

lemma fold_update_key_already:
  assumes "(''status'', ''Already Downloaded'') \<in> set d" and "distinct (keys d)"
  shows "return_code (fold (update_key basename) d s) = ALREADY \<and> data (fold (update_key basename) d s) ''status'' = Some None"
proof -
  from assms(1) obtain pre post where d: "d = pre @ (''status'', ''Already Downloaded'') # post"
    by (auto simp: in_set_conv_decomp)
  with assms(2) have "''status'' \<notin> set (keys post)" by (auto simp: keys_def)
  then show ?thesis
    by (simp add: d fold_update_key_return_code_other fold_update_key_data_other update_key_already)
qed

lemma update_key_return_code_cases:
  "return_code (update_key basename kv s) = return_code s \<or> return_code (update_key basename kv s) = ALREADY"
  by (cases kv) (simp add: update_key_def add_on_files_list_def Let_def split: prod.splits)

lemma fold_update_key_return_code_cases:
  "return_code (fold (update_key basename) d s) = return_code s \<or> return_code (fold (update_key basename) d s) = ALREADY"
proof (induction d arbitrary: s)
  case Nil show ?case by simp
next
  case (Cons kv d)
  from Cons [of "update_key basename kv s"] update_key_return_code_cases [of basename kv s]
  show ?case by auto
qed

lemma update_key_proc: "proc (update_key basename kv s) = proc s"
  by (cases kv) (simp add: update_key_def add_on_files_list_def Let_def split: prod.splits)

lemma fold_update_key_proc: "proc (fold (update_key basename) d s) = proc s"
  by (induction d arbitrary: s) (auto simp: update_key_proc)

lemma dict_set_keys: "set (keys (dict_set d k v)) = insert k (set (keys d))"
  by (induction d k v rule: dict_set.induct) (auto simp: keys_def)

lemma dict_set_distinct: "distinct (keys d) \<Longrightarrow> distinct (keys (dict_set d k v))"
proof (induction d k v rule: dict_set.induct)
  case (1 k v) show ?case by (simp add: keys_def)
next
  case (2 k' v' d k v)
  then show ?case using dict_set_keys [of d k v] by (auto simp: keys_def)
qed

text \<open>
  The loop of \<open>_update_data\<close> visits the keys in the order of the dictionary, which Python 2
  does not fix. The order does not matter: the steps for two different keys commute.
\<close>

lemma update_key_eq:
  "update_key basename (k, v) s =
     s\<lparr>return_code := (if k = ''status'' \<and> v = ''Already Downloaded'' then ALREADY
                        else return_code s),
       files_list := (if k = ''filename'' then files_list s @ [v] else files_list s),
       data := (data s)(k \<mapsto> (if k = ''filename'' then Some (basename v)
                                else if k = ''status'' \<and> v = ''Already Downloaded'' then None
                                else Some v))\<rparr>"
  by (simp add: update_key_def add_on_files_list_def)

lemma update_key_commute:
  assumes "fst kv \<noteq> fst kv'"
  shows "update_key basename kv (update_key basename kv' s) = update_key basename kv' (update_key basename kv s)"
proof -
  obtain k v k' v' where kv: "kv = (k, v)" "kv' = (k', v')" by (cases kv; cases kv') auto
  with assms have ne: "k \<noteq> k'" by simp
  then have "(data s)(k' \<mapsto> x, k \<mapsto> y) = (data s)(k \<mapsto> y, k' \<mapsto> x)" for x y
    by (simp add: fun_upd_twist)
  with ne show ?thesis
    unfolding kv update_key_eq
    by (cases "k = ''filename''"; cases "k' = ''filename''"; cases "k = ''status''";
        cases "k' = ''status''"; simp)
qed

lemma update_data_any_order:
  assumes "distinct (keys d)" and "mset d = mset d'"
  shows "update_data basename s d = update_data basename s d'"
proof -
  have "fold (update_key basename) d = fold (update_key basename) d'"
  proof (rule fold_multiset_equiv [OF _ assms(2)])
    fix x y assume "x \<in> set d" "y \<in> set d"
    with assms(1) have "x = y \<or> fst x \<noteq> fst y"
      by (auto simp: keys_def distinct_map inj_on_def)
    then show "update_key basename x \<circ> update_key basename y = update_key basename y \<circ> update_key basename x"
      by (auto simp: fun_eq_iff update_key_commute)
  qed
  moreover from assms(2) have "d = [] \<longleftrightarrow> d' = []" by (metis mset_zero_iff)
  ultimately show ?thesis by (simp add: update_data_fold)
qed

section \<open>The events that the classifier returns\<close>


lemma dict_set_member: "(k, v) \<in> set (dict_set d k v)"
  by (induction d k v rule: dict_set.induct) auto

lemma tokens_empty: "tokens [] = []"
  by (simp add: tokens_def)

lemma extract_data_already:
  assumes "tokens line = ''[download]'' # ts" and "ts \<noteq> []" and "last ts = ''downloaded''"
    and "extract_data line = Inr event"
  shows "(''status'', ''Already Downloaded'') \<in> set event"
proof -
  from assms(1,4) obtain d3 where "get_already ts d3 = Inr event"
    by (auto simp: extract_data_def bind_err_def split: sum.splits)
  with assms(2,3) have "event = dict_set d3 ''status'' ''Already Downloaded''"
    by (auto simp: get_already_def bind_err_def index_last_def)
  then show ?thesis by (simp add: dict_set_member)
qed

lemma get_filename_distinct: "get_filename ts d = Inr d' \<Longrightarrow> distinct (keys d) \<Longrightarrow> distinct (keys d')"
  by (auto simp: get_filename_def bind_err_def index_def dict_set_distinct split: if_splits)

lemma get_progress_distinct: "get_progress ts d = Inr d' \<Longrightarrow> distinct (keys d) \<Longrightarrow> distinct (keys d')"
  by (auto simp: get_progress_def bind_err_def index_def dict_set_distinct split: if_splits)

lemma get_playlist_distinct: "get_playlist ts d = Inr d' \<Longrightarrow> distinct (keys d) \<Longrightarrow> distinct (keys d')"
  by (auto simp: get_playlist_def bind_err_def index_def dict_set_distinct split: if_splits)

lemma get_already_distinct: "get_already ts d = Inr d' \<Longrightarrow> distinct (keys d) \<Longrightarrow> distinct (keys d')"
  by (auto simp: get_already_def bind_err_def index_last_def dict_set_distinct split: if_splits)

lemma extract_data_distinct:
  assumes "extract_data line = Inr event" shows "distinct (keys event)"
proof (cases "tokens line")
  case Nil
  with assms show ?thesis by (simp add: extract_data_def keys_def)
next
  case (Cons header ts)
  show ?thesis
  proof (cases "header = ''[download]''")
    case False
    with Cons assms show ?thesis by (auto simp: extract_data_def keys_def split: if_splits)
  next
    case True
    with Cons assms obtain d1 d2 d3 where
      "get_filename ts (dict_set [] ''status'' ''Downloading'') = Inr d1"
      "get_progress ts d1 = Inr d2" "get_playlist ts d2 = Inr d3" "get_already ts d3 = Inr event"
      by (auto simp: extract_data_def bind_err_def split: sum.splits)
    then show ?thesis
      using get_filename_distinct get_progress_distinct get_playlist_distinct get_already_distinct
      by (metis dict_set_distinct distinct.simps(1) keys_def list.simps(8))
  qed
qed

lemma get_filename_status: "get_filename ts d = Inr d' \<Longrightarrow> ''status'' \<in> set (keys d) \<Longrightarrow> ''status'' \<in> set (keys d')"
  by (auto simp: get_filename_def bind_err_def index_def dict_set_keys split: if_splits)

lemma get_progress_status: "get_progress ts d = Inr d' \<Longrightarrow> ''status'' \<in> set (keys d) \<Longrightarrow> ''status'' \<in> set (keys d')"
  by (auto simp: get_progress_def bind_err_def index_def dict_set_keys split: if_splits)

lemma get_playlist_status: "get_playlist ts d = Inr d' \<Longrightarrow> ''status'' \<in> set (keys d) \<Longrightarrow> ''status'' \<in> set (keys d')"
  by (auto simp: get_playlist_def bind_err_def index_def dict_set_keys split: if_splits)

lemma get_already_status: "get_already ts d = Inr d' \<Longrightarrow> ''status'' \<in> set (keys d) \<Longrightarrow> ''status'' \<in> set (keys d')"
  by (auto simp: get_already_def bind_err_def index_last_def dict_set_keys split: if_splits)

lemma extract_data_has_status:
  assumes "extract_data line = Inr event" and "tokens line \<noteq> []"
  shows "''status'' \<in> set (keys event)"
proof -
  from assms(2) obtain header ts where tk: "tokens line = header # ts" by (cases "tokens line") auto
  show ?thesis
  proof (cases "header = ''[download]''")
    case False
    with tk assms(1) show ?thesis by (auto simp: extract_data_def keys_def split: if_splits)
  next
    case True
    with tk assms(1) obtain d1 d2 d3 where
      "get_filename ts (dict_set [] ''status'' ''Downloading'') = Inr d1"
      "get_progress ts d1 = Inr d2" "get_playlist ts d2 = Inr d3" "get_already ts d3 = Inr event"
      by (auto simp: extract_data_def bind_err_def split: sum.splits)
    then show ?thesis
      using get_filename_status get_progress_status get_playlist_status get_already_status
      by (metis dict_set_keys insertI1)
  qed
qed

section \<open>Facts about the loop of download\<close>

lemma hook_data_fields: "proc (hook_data s) = proc s" "return_code (hook_data s) = return_code s"
  "data (hook_data s) = data s" "files_list (hook_data s) = files_list s"
  by (simp_all add: hook_data_def)

lemma log_fields: "proc (log s t) = proc s" "return_code (log s t) = return_code s"
  "data (log s t) = data s"
  by (simp_all add: log_def)

lemma iteration_proc: "iteration basename s out_line err_line = (s', r) \<Longrightarrow> proc s' = proc s"
  by (auto simp: iteration_def update_data_fold fold_update_key_proc hook_data_fields log_fields Let_def
      split: prod.splits sum.splits if_splits)

lemma stop_assign_proc: "proc (stop_assign s) = proc s"
  by (simp add: stop_assign_def)

lemma download_loop_dead:
  "\<not> proc_is_alive s True \<Longrightarrow> download_loop basename s run = (s, Inr (return_code s))"
  by (induction basename s run rule: download_loop.induct) (auto simp: stop_test_def)

lemma download_loop_proc: "download_loop basename s run = (s', r) \<Longrightarrow> proc s' = proc s"
proof (induction basename s run arbitrary: s' r rule: download_loop.induct)
  case (1 basename s) then show ?case by simp
next
  case (2 basename s run) then show ?case by simp
next
  case (3 basename s run) then show ?case by (auto simp: stop_assign_proc split: if_splits)
next
  case (4 basename s out_line err_line run)
  show ?case
  proof (cases "proc_is_alive s True")
    case False with 4(2) show ?thesis by simp
  next
    case True
    obtain s1 r1 where it: "iteration basename s out_line err_line = (s1, r1)"
      by (cases "iteration basename s out_line err_line")
    show ?thesis
    proof (cases r1)
      case (Inl e) with True it 4(2) iteration_proc [OF it] show ?thesis by simp
    next
      case (Inr u)
      with True it 4(2) have "download_loop basename s1 run = (s', r)" by simp
      from 4(1) [OF True it [symmetric] Inr this] iteration_proc [OF it] show ?thesis by simp
    qed
  qed
qed

lemma download_loop_append:
  "download_loop basename s (xs @ ys) =
     (case download_loop basename s xs of
        (s', Inl e) \<Rightarrow> (s', Inl e)
      | (s', Inr c) \<Rightarrow> download_loop basename s' ys)"
proof (induction basename s xs rule: download_loop.induct)
  case (1 basename s) show ?case by simp
next
  case (2 basename s run) then show ?case by simp
next
  case (3 basename s run) then show ?case by simp
next
  case (4 basename s out_line err_line run)
  show ?case
  proof (cases "proc_is_alive s True")
    case False then show ?thesis by (simp add: download_loop_dead)
  next
    case True
    obtain s1 r1 where it: "iteration basename s out_line err_line = (s1, r1)"
      by (cases "iteration basename s out_line err_line")
    show ?thesis
    proof (cases r1)
      case (Inl e) with True it show ?thesis by simp
    next
      case (Inr u)
      from 4 [OF True it [symmetric] Inr] True it Inr show ?thesis by simp
    qed
  qed
qed

lemma quiet_read_iteration:
  assumes "quiet_read out_line err_line"
  shows "\<exists>s'. iteration basename s out_line err_line = (s', Inr ()) \<and>
              (return_code s' = return_code s \<or> return_code s' = ALREADY)"
  using assms fold_update_key_return_code_cases [of basename _ s]
  by (auto simp: quiet_read_def iteration_def update_data_fold hook_data_fields Let_def
      split: prod.splits sum.splits)

lemma download_loop_quiet:
  "list_all quiet run \<Longrightarrow> return_code s = ALREADY \<Longrightarrow>
     snd (download_loop basename s run) = Inr ALREADY"
proof (induction run arbitrary: s)
  case Nil then show ?case by simp
next
  case (Cons a run)
  show ?case
  proof (cases a)
    case Kill with Cons(2) show ?thesis by simp
  next
    case Assign with Cons(2) show ?thesis by simp
  next
    case (Read out_line err_line)
    with Cons(2) have q: "quiet_read out_line err_line" and rest: "list_all quiet run" by simp_all
    from quiet_read_iteration [OF q, of basename s] Cons(3) obtain s' where
      it: "iteration basename s out_line err_line = (s', Inr ())" and rc: "return_code s' = ALREADY" by auto
    show ?thesis
    proof (cases "proc_is_alive s True")
      case False with Read Cons(3) show ?thesis by simp
    next
      case True with Read it Cons(1) [OF rest rc] show ?thesis by simp
    qed
  qed
qed

lemma download_start_alive: "proc_is_alive (download_start os_name s url opts) True"
  by (simp add: download_start_def create_process_def proc_is_alive_def Let_def)

section \<open>The argument builder against the specification\<close>

lemma append_item_twice:
  "append_item (p\<lparr>options_list := l\<rparr>) x = p\<lparr>options_list := l @ [x]\<rparr>"
  "append_item p x = p\<lparr>options_list := options_list p @ [x]\<rparr>"
  by (simp_all add: append_item_def)

lemma guarded_append:
  "(if g then append_item p a else p) = p\<lparr>options_list := options_list p @ emit_if g [a]\<rparr>"
  "(if g then append_item (append_item p a) b else p) =
     p\<lparr>options_list := options_list p @ emit_if g [a, b]\<rparr>"
  by (simp_all add: append_item_def emit_if_def)

lemma set_progress_options_eq:
  "set_progress_options p = p\<lparr>options_list := options_list p @ progress_group\<rparr>"
  by (simp add: set_progress_options_def progress_group_def append_item_def)

lemma set_output_options_eq:
  "set_output_options fix_path p =
     p\<lparr>options_list := options_list p @ output_group fix_path (options p)\<rparr>"
  by (simp add: set_output_options_def output_group_def emit_if_def append_item_def Let_def)

lemma set_auth_options_eq:
  "set_auth_options p = p\<lparr>options_list := options_list p @ auth_group (options p)\<rparr>"
  by (simp add: set_auth_options_def auth_group_def guarded_append Let_def)

lemma set_connection_options_eq:
  "set_connection_options p = p\<lparr>options_list := options_list p @ connection_group (options p)\<rparr>"
  by (simp add: set_connection_options_def connection_group_def guarded_append Let_def)

lemma set_playlist_options_eq:
  "set_playlist_options p = p\<lparr>options_list := options_list p @ playlist_group (options p)\<rparr>"
  by (simp add: set_playlist_options_def playlist_group_def guarded_append Let_def)

lemma set_filesystem_options_eq:
  "set_filesystem_options p = p\<lparr>options_list := options_list p @ filesystem_group (options p)\<rparr>"
  by (simp add: set_filesystem_options_def filesystem_group_def guarded_append Let_def)

lemma set_video_options_eq:
  "set_video_options is_dash p =
     (case video_group is_dash (options p) of Inl e \<Rightarrow> Inl e
      | Inr args \<Rightarrow> Inr (p\<lparr>options_list := options_list p @ args\<rparr>))"
  by (simp add: set_video_options_def video_group_def bind_err_def append_item_def Let_def
      split: sum.splits)

lemma set_subtitles_options_eq:
  "set_subtitles_options p =
     (case subtitles_group (options p) of Inl e \<Rightarrow> Inl e
      | Inr args \<Rightarrow> Inr (p\<lparr>options_list := options_list p @ args\<rparr>))"
  by (simp add: set_subtitles_options_def subtitles_group_def bind_err_def emit_if_def
      append_item_def Let_def split: sum.splits)

lemma set_audio_options_eq:
  "set_audio_options p =
     (case audio_group (options p) of Inl e \<Rightarrow> Inl e
      | Inr args \<Rightarrow> Inr (p\<lparr>options_list := options_list p @ args\<rparr>))"
  by (simp add: set_audio_options_def audio_group_def bind_err_def emit_if_def
      append_item_def Let_def split: sum.splits)

lemma fold_append_item:
  "fold (\<lambda>option p'. append_item p' option) xs p = p\<lparr>options_list := options_list p @ xs\<rparr>"
  by (induction xs arbitrary: p) (simp_all add: append_item_def)

lemma split_ws_empty: "split_ws [] = []"
  by (simp add: split_ws_def)

lemma set_other_options_eq:
  "set_other_options p = p\<lparr>options_list := options_list p @ extra_group (options p)\<rparr>"
  by (simp add: set_other_options_def extra_group_def fold_append_item split_ws_empty)

lemma parse_eq:
  "parse fix_path is_dash p =
     (case build fix_path is_dash (options p) of Inl e \<Rightarrow> Inl e
      | Inr args \<Rightarrow> Inr (options_list p @ args))"
  by (simp add: parse_def build_def set_progress_options_eq set_output_options_eq
      set_auth_options_eq set_connection_options_eq set_playlist_options_eq
      set_filesystem_options_eq set_video_options_eq set_subtitles_options_eq
      set_audio_options_eq set_other_options_eq bind_err_def Let_def
      split: sum.splits)

text \<open>
  C2. For every configuration the list that \<open>parse\<close> returns on a new parser is the list
  \<open>build\<close> describes: the groups progress, output, auth, connection, video format,
  playlist, filesystem, subtitles, audio and extra arguments in this order, every guarded
  flag present exactly when its guard holds (\<open>emit_if\<close>), the audio quality under the
  guard of rule 9, audio extraction switched on and a quality other than \<open>mid\<close>. The two
  sides also fail together, with KeyError, on a name that is not in its table.
\<close>

theorem parse_builds_argument_list: "parse fix_path is_dash (OptionsParser_init cfg) = build fix_path is_dash cfg"
  by (simp add: parse_eq OptionsParser_init_def split: sum.splits)

lemma parse_example:
  "parse (\<lambda>path. path @ ''/'') (\<lambda>word. False)
     (OptionsParser_init
        \<lparr> save_path = ''/home/user'', output_format = ''title'', output_template = [],
          restrict_filenames = False, username = ''me'', password = [], video_password = [],
          retries = 10, proxy = [], user_agent = [], referer = [],
          video_format = ''mp4 [640x360]'', dash_audio_format = ''none'',
          playlist_start = 1, playlist_end = 0, max_downloads = 3,
          ignore_errors = True, write_description = False, write_info = False,
          write_thumbnail = False, min_filesize = ''0'', max_filesize = ''0'',
          write_all_subs = False, write_auto_subs = False, write_subs = True,
          subs_lang = ''Greek'', embed_subs = False,
          to_audio = True, audio_format = ''mp3'', audio_quality = ''high'', keep_video = False,
          cmd_args = ''--no-mtime  -v'' \<rparr>) =
   Inr [''--newline'', ''-o'', ''/home/user/%(title)s.%(ext)s'', ''-u'', ''me'',
        ''-f'', ''18'', ''--max-downloads'', ''3'', ''-i'', ''--write-sub'', ''--sub-lang'', ''gr'',
        ''-x'', ''--audio-format'', ''mp3'', ''--audio-quality'', ''0'', ''--no-mtime'', ''-v'']"
  by (simp add: parse_eq build_def OptionsParser_init_def progress_group_def output_group_def
        auth_group_def connection_group_def video_group_def playlist_group_def
        filesystem_group_def subtitles_group_def audio_group_def extra_group_def emit_if_def
        bind_err_def dict_get_def VIDEO_FORMATS_def SUBS_LANG_def AUDIO_QUALITY_def
        str_def str_nat.simps split_ws_def is_space_def)

section \<open>Result codes of a run\<close>

lemmas supervisor_defs = download_def download_start_def create_process_def get_cmd_def
  proc_is_alive_def iteration_def read_def rstrip_def is_space_def update_data_def update_key_def
  add_on_files_list_def posix_basename_def hook_data_def log_def stop_test_def stop_assign_def DownloadObject_init_def
  OK_def ERROR_def STOPPED_def ALREADY_def

text \<open>
  C3. The claim is that a run in which \<open>stop()\<close> is called while the process lives
  returns STOPPED. \<open>stop()\<close> kills the process first and assigns STOPPED afterwards, and
  nothing makes \<open>download\<close> wait for the assignment or keep it. In the first run the pass
  that was waiting in \<open>readline()\<close> at the kill reads nothing, the loop ends and \<open>download\<close>
  returns OK before the assignment; in the second and third the assignment takes effect and the
  pass under way assigns ERROR or ALREADY over it.
\<close>

theorem stop_does_not_force_stopped:
  "snd (download ''posix'' posix_basename (DownloadObject_init ''youtube-dl'' True True) ''url'' []
          [Kill, Read [] []]) = Inr OK \<and>
   snd (download ''posix'' posix_basename (DownloadObject_init ''youtube-dl'' True True) ''url'' []
          [Kill, Assign, Read [] ''ERROR: unable to download'']) = Inr ERROR \<and>
   snd (download ''posix'' posix_basename (DownloadObject_init ''youtube-dl'' True True) ''url'' []
          [Kill, Assign, Read ''[download] a.mp4 has already been downloaded'' []]) = Inr ALREADY \<and>
   OK \<noteq> STOPPED \<and> ERROR \<noteq> STOPPED \<and> ALREADY \<noteq> STOPPED"
  by (simp add: supervisor_defs classifier_defs tokens_def)

text \<open>
  C4. The claim is that a run in which a line ending in \<open>downloaded\<close> is observed returns
  ALREADY. The return code is the last one assigned: text read from stderr after that line
  gives ERROR.
\<close>

theorem already_overridden_by_stderr:
  "snd (download ''posix'' posix_basename (DownloadObject_init ''youtube-dl'' True True) ''url'' []
          [Read ''[download] a.mp4 has already been downloaded'' [],
           Read [] ''WARNING: unable to set mtime'']) = Inr ERROR \<and> ERROR \<noteq> ALREADY"
  by (simp add: supervisor_defs classifier_defs tokens_def)

text \<open>
  C4, amended. Merging an event with the status Already Downloaded sets the pending return
  code to ALREADY, stores \<open>None\<close> as the status and returns True. A run in which a
  \<open>[download]\<close> line with the last token \<open>downloaded\<close> is classified returns ALREADY,
  whatever the lines before it had set, when every pass that follows is quiet: classified
  without an exception, with no text from stderr, and no step of \<open>stop()\<close> among them.
\<close>

theorem already_downloaded_result:
  "(distinct (keys event) \<and> (''status'', ''Already Downloaded'') \<in> set event \<longrightarrow>
      return_code (fst (update_data basename s event)) = ALREADY \<and>
      data (fst (update_data basename s event)) ''status'' = Some None \<and>
      snd (update_data basename s event)) \<and>
   (snd (download os_name basename s0 url opts pre) = Inr c \<and>
    tokens (rstrip out_line) = ''[download]'' # ts \<and> ts \<noteq> [] \<and> last ts = ''downloaded'' \<and>
    extract_data (rstrip out_line) = Inr ev \<and> list_all quiet post \<longrightarrow>
      snd (download os_name basename s0 url opts (pre @ Read out_line err_line # post)) = Inr ALREADY)"
proof (intro conjI impI)
  assume "distinct (keys event) \<and> (''status'', ''Already Downloaded'') \<in> set event"
  then have d: "distinct (keys event)" and m: "(''status'', ''Already Downloaded'') \<in> set event" by simp_all
  from fold_update_key_already [OF m d, where s = s and basename = basename]
  show "return_code (fst (update_data basename s event)) = ALREADY"
    and "data (fst (update_data basename s event)) ''status'' = Some None"
    by (simp_all add: update_data_fold)
  from m show "snd (update_data basename s event)" by (auto simp: update_data_fold)
next
  let ?s0 = "download_start os_name s0 url opts"
  assume h: "snd (download os_name basename s0 url opts pre) = Inr c \<and>
    tokens (rstrip out_line) = ''[download]'' # ts \<and> ts \<noteq> [] \<and> last ts = ''downloaded'' \<and>
    extract_data (rstrip out_line) = Inr ev \<and> list_all quiet post"
  then obtain s1 where pre: "download_loop basename ?s0 pre = (s1, Inr c)"
    by (cases "download_loop basename ?s0 pre") (simp add: download_def)
  from download_loop_proc [OF pre] download_start_alive [of os_name s0 url opts]
  have alive: "proc_is_alive s1 True" by (simp add: proc_is_alive_def)
  from h have tk: "tokens (rstrip out_line) = ''[download]'' # ts" and ne: "ts \<noteq> []"
    and lst: "last ts = ''downloaded''" and ex: "extract_data (rstrip out_line) = Inr ev"
    and post: "list_all quiet post" by simp_all
  from tk have nonempty: "rstrip out_line \<noteq> []" using tokens_empty by auto
  have m: "(''status'', ''Already Downloaded'') \<in> set ev"
    by (rule extract_data_already [OF tk ne lst ex])
  have d: "distinct (keys ev)" by (rule extract_data_distinct [OF ex])
  have "\<exists>s2. iteration basename s1 out_line err_line = (s2, Inr ()) \<and> return_code s2 = ALREADY"
    using nonempty ex fold_update_key_already [OF m d, where s = s1 and basename = basename] m
    by (auto simp add: iteration_def read_def update_data_fold hook_data_fields Let_def)
  then obtain s2 where it: "iteration basename s1 out_line err_line = (s2, Inr ())"
    and rc: "return_code s2 = ALREADY" by blast
  from download_loop_quiet [OF post rc] alive it pre
  show "snd (download os_name basename s0 url opts (pre @ Read out_line err_line # post)) = Inr ALREADY"
    by (simp add: download_def download_loop_append)
qed

theorem already_downloaded_result_witness:
  "distinct (keys [(''status'', ''Already Downloaded'')]) \<and>
   return_code (fst (update_data posix_basename ((DownloadObject_init ''youtube-dl'' True True)\<lparr>return_code := ERROR\<rparr>)
                       [(''status'', ''Already Downloaded'')])) = ALREADY \<and>
   snd (download ''posix'' posix_basename (DownloadObject_init ''youtube-dl'' True True) ''url'' []
          [Read ''[download] Destination: /tmp/a.mp4'' [],
           Read ''[download]  42.0% of 10.00MiB at 1.20MiB/s ETA 00:10'' []]) = Inr OK \<and>
   tokens (rstrip (''[download] /tmp/b.mp4 has already been downloaded'' @ [CHR 0x0A])) =
     ''[download]'' # [''/tmp/b.mp4'', ''has'', ''already'', ''been'', ''downloaded''] \<and>
   list_all quiet [Read ''[ffmpeg] Merging formats'' []] \<and>
   snd (download ''posix'' posix_basename (DownloadObject_init ''youtube-dl'' True True) ''url'' []
          ([Read ''[download] Destination: /tmp/a.mp4'' [],
            Read ''[download]  42.0% of 10.00MiB at 1.20MiB/s ETA 00:10'' []] @
           Read (''[download] /tmp/b.mp4 has already been downloaded'' @ [CHR 0x0A]) [] #
           [Read ''[ffmpeg] Merging formats'' []])) = Inr ALREADY"
  using already_downloaded_result [where basename = posix_basename
        and event = "[(''status'', ''Already Downloaded'')]"
        and s = "(DownloadObject_init ''youtube-dl'' True True)\<lparr>return_code := ERROR\<rparr>"
        and os_name = "''posix''" and ?s0.0 = "DownloadObject_init ''youtube-dl'' True True" and url = "''url''"
        and opts = "[]"
        and pre = "[Read ''[download] Destination: /tmp/a.mp4'' [],
                    Read ''[download]  42.0% of 10.00MiB at 1.20MiB/s ETA 00:10'' []]"
        and c = OK
        and out_line = "''[download] /tmp/b.mp4 has already been downloaded'' @ [CHR 0x0A]"
        and ts = "[''/tmp/b.mp4'', ''has'', ''already'', ''been'', ''downloaded'']"
        and ev = "[(''status'', ''Already Downloaded'')]"
        and post = "[Read ''[ffmpeg] Merging formats'' []]" and err_line = "[]"]
  by (simp add: supervisor_defs classifier_defs tokens_def keys_def quiet_read_def)

text \<open>
  C5. The claim is that every call of \<open>download\<close> starts with the eight fields unset.
  \<open>self._data\<close> is assigned in \<open>__init__\<close> only: the second call on an instance starts
  with the file name the first call stored.
\<close>

theorem second_download_keeps_progress:
  "data (download_start ''posix''
           (fst (download ''posix'' posix_basename (DownloadObject_init ''youtube-dl'' True True) ''url1'' []
                   [Read ''[download] Destination: /tmp/a.mp4'' []]))
           ''url2'' []) ''filename'' = Some (Some ''a.mp4'')"
  by (simp add: supervisor_defs classifier_defs tokens_def)

text \<open>
  C5, amended. A new instance has the eight fields unset and no other key. The statements
  of \<open>download\<close> before its loop set the return code to OK and keep \<open>self._data\<close> and the
  list of files as the instance holds them.
\<close>

theorem download_start_keeps_data:
  "data (download_start os_name s url opts) = data s \<and>
   files_list (download_start os_name s url opts) = files_list s \<and>
   return_code (download_start os_name s url opts) = OK \<and>
   data (DownloadObject_init path hook lg) key =
     (if key \<in> set [''playlist_index'', ''playlist_size'', ''filesize'', ''filename'',
                      ''percent'', ''status'', ''speed'', ''eta'']
      then Some None else None)"
  by (simp add: download_start_def create_process_def DownloadObject_init_def Let_def)

text \<open>
  C10. The claim is that every line with at least one token gives an event with a status,
  so that the merge returns True and the hook is called. For the line
  \<open>[download] Downloading\<close> the classifier evaluates \<open>stdout[1]\<close>, which raises
  IndexError: \<open>download\<close> ends with the exception and the hook is not called. Where the
  classifier returns, the event of a line with a token has a status and its merge returns
  True (\<open>extract_data_has_status\<close>, \<open>merge_of_classified_line\<close>).
\<close>

theorem download_raises_on_short_line:
  "tokens ''[download] Downloading'' = [''[download]'', ''Downloading''] \<and>
   snd (download ''posix'' posix_basename (DownloadObject_init ''youtube-dl'' True True) ''url'' []
          [Read ''[download] Downloading'' []]) = Inl IndexError \<and>
   hooked (fst (download ''posix'' posix_basename (DownloadObject_init ''youtube-dl'' True True) ''url'' []
          [Read ''[download] Downloading'' []])) = []"
  by (simp add: supervisor_defs classifier_defs tokens_def)

lemma merge_of_classified_line:
  assumes "extract_data line = Inr event" and "tokens line \<noteq> []"
  shows "snd (update_data basename s event)"
  using extract_data_has_status [OF assms] by (auto simp: update_data_fold keys_def)

section \<open>Removing the DASH files\<close>

lemma clear_dash_all_removable:
  "\<forall>p \<in> set fl. fs p \<noteq> Some Protected \<Longrightarrow>
     snd (clear_dash fl fs) = Inr () \<and>
     (\<forall>p. fst (clear_dash fl fs) p = (if p \<in> set fl then None else fs p))"
proof (induction fl arbitrary: fs)
  case Nil show ?case by simp
next
  case (Cons f fl)
  show ?case
  proof (cases "fs f")
    case None
    with Cons(1) [of fs] Cons(2) show ?thesis by (auto simp: os_path_exists_def)
  next
    case (Some e)
    with Cons(2) have rm: "fs f = Some Removable" by (cases e) auto
    from Cons(2) have "\<forall>p \<in> set fl. (fs(f := None)) p \<noteq> Some Protected" by simp
    with Cons(1) [of "fs(f := None)"]
    have ih: "snd (clear_dash fl (fs(f := None))) = Inr ()"
      and ih': "\<And>p. fst (clear_dash fl (fs(f := None))) p =
                  (if p \<in> set fl then None else (fs(f := None)) p)" by blast+
    from rm have step: "clear_dash (f # fl) fs = clear_dash fl (fs(f := None))"
      by (simp add: os_path_exists_def os_remove_def)
    show ?thesis unfolding step using ih ih' by simp
  qed
qed

lemma clear_dash_append:
  "clear_dash (xs @ ys) fs =
     (case clear_dash xs fs of (fs', Inl e) \<Rightarrow> (fs', Inl e) | (fs', Inr u) \<Rightarrow> clear_dash ys fs')"
  by (induction xs fs rule: clear_dash.induct) (auto split: prod.splits sum.splits)

text \<open>
  C9. The claim is that a removal that fails does not keep the later files from being
  removed. \<open>clear_dash\<close> has no exception handler: the OSError of \<open>os.remove\<close> ends the
  loop and the file behind the failing one stays.
\<close>

theorem clear_dash_aborts_on_failure:
  "snd (clear_dash [''a.f137.mp4'', ''a.f140.m4a'']
          [''a.f137.mp4'' \<mapsto> Protected, ''a.f140.m4a'' \<mapsto> Removable]) = Inl OSError \<and>
   os_path_exists (fst (clear_dash [''a.f137.mp4'', ''a.f140.m4a'']
          [''a.f137.mp4'' \<mapsto> Protected, ''a.f140.m4a'' \<mapsto> Removable])) ''a.f140.m4a''"
  by (simp add: os_path_exists_def os_remove_def)

text \<open>
  C9, amended. When no listed path is an entry whose removal fails, \<open>clear_dash\<close> returns
  without an exception, every listed path that existed is gone, a listed path that did not
  exist is passed over, and the other paths are as before. At the first listed entry whose
  removal fails \<open>clear_dash\<close> raises OSError: the listed paths before it are gone and
  everything else is as before.
\<close>

theorem clear_dash_removes_existing:
  "((\<forall>p \<in> set fl. fs p \<noteq> Some Protected) \<longrightarrow>
      snd (clear_dash fl fs) = Inr () \<and>
      (\<forall>p. fst (clear_dash fl fs) p = (if p \<in> set fl then None else fs p))) \<and>
   ((\<forall>p \<in> set pre. fs p \<noteq> Some Protected) \<and> fs f = Some Protected \<longrightarrow>
      snd (clear_dash (pre @ f # post) fs) = Inl OSError \<and>
      (\<forall>p. fst (clear_dash (pre @ f # post) fs) p = (if p \<in> set pre then None else fs p)))"
proof (intro conjI impI)
  assume "\<forall>p \<in> set fl. fs p \<noteq> Some Protected"
  from clear_dash_all_removable [OF this]
  show "snd (clear_dash fl fs) = Inr ()"
    and "\<forall>p. fst (clear_dash fl fs) p = (if p \<in> set fl then None else fs p)" by simp_all
next
  assume h: "(\<forall>p \<in> set pre. fs p \<noteq> Some Protected) \<and> fs f = Some Protected"
  then have pre: "\<forall>p \<in> set pre. fs p \<noteq> Some Protected" and f: "fs f = Some Protected" by simp_all
  obtain fs' r where c: "clear_dash pre fs = (fs', r)" by (cases "clear_dash pre fs")
  from clear_dash_all_removable [OF pre] c
  have r: "r = Inr ()" and fs': "\<forall>p. fs' p = (if p \<in> set pre then None else fs p)" by simp_all
  from pre f have "f \<notin> set pre" by auto
  with fs' f have "fs' f = Some Protected" by simp
  with c r fs'
  show "snd (clear_dash (pre @ f # post) fs) = Inl OSError"
    and "\<forall>p. fst (clear_dash (pre @ f # post) fs) p = (if p \<in> set pre then None else fs p)"
    by (simp_all add: clear_dash_append os_path_exists_def os_remove_def)
qed

theorem clear_dash_removes_existing_witness:
  "snd (clear_dash [''a.f137.mp4'', ''gone'', ''a.f140.m4a'']
         [''a.f137.mp4'' \<mapsto> Removable, ''a.f140.m4a'' \<mapsto> Removable, ''keep'' \<mapsto> Protected]) = Inr () \<and>
   fst (clear_dash [''a.f137.mp4'', ''gone'', ''a.f140.m4a'']
         [''a.f137.mp4'' \<mapsto> Removable, ''a.f140.m4a'' \<mapsto> Removable, ''keep'' \<mapsto> Protected]) ''a.f140.m4a'' = None \<and>
   fst (clear_dash [''a.f137.mp4'', ''gone'', ''a.f140.m4a'']
         [''a.f137.mp4'' \<mapsto> Removable, ''a.f140.m4a'' \<mapsto> Removable, ''keep'' \<mapsto> Protected]) ''keep'' = Some Protected \<and>
   snd (clear_dash ([''a.f137.mp4''] @ ''dir'' # [''a.f140.m4a''])
         [''a.f137.mp4'' \<mapsto> Removable, ''dir'' \<mapsto> Protected, ''a.f140.m4a'' \<mapsto> Removable]) = Inl OSError \<and>
   fst (clear_dash ([''a.f137.mp4''] @ ''dir'' # [''a.f140.m4a''])
         [''a.f137.mp4'' \<mapsto> Removable, ''dir'' \<mapsto> Protected, ''a.f140.m4a'' \<mapsto> Removable]) ''a.f137.mp4'' = None \<and>
   fst (clear_dash ([''a.f137.mp4''] @ ''dir'' # [''a.f140.m4a''])
         [''a.f137.mp4'' \<mapsto> Removable, ''dir'' \<mapsto> Protected, ''a.f140.m4a'' \<mapsto> Removable]) ''a.f140.m4a'' = Some Removable"
  using clear_dash_removes_existing [where fl = "[''a.f137.mp4'', ''gone'', ''a.f140.m4a'']"
        and fs = "[''a.f137.mp4'' \<mapsto> Removable, ''a.f140.m4a'' \<mapsto> Removable, ''keep'' \<mapsto> Protected]"
        and pre = "[]" and f = "''keep''" and post = "[]"]
      clear_dash_removes_existing [where fl = "[]"
        and fs = "[''a.f137.mp4'' \<mapsto> Removable, ''dir'' \<mapsto> Protected, ''a.f140.m4a'' \<mapsto> Removable]"
        and pre = "[''a.f137.mp4'']" and f = "''dir''" and post = "[''a.f140.m4a'']"]
  by (simp add: os_path_exists_def os_remove_def)

end
